theory Spec2Isabelle
  imports Main
begin

section \<open>Values, objects and errors of the host language\<close>

text \<open>
  The handler of \<^verbatim>\<open>src/npm/src/controller/sso-handler.ts\<close> works on JavaScript
  values. A value typed \<^verbatim>\<open>any\<close> is a \<open>jsval\<close>; an object is the list of its own
  properties in insertion order, with distinct keys.
\<close>

datatype jsval =
    JUndefined
  | JNull
  | JBool bool
  | JNumber int
  | JString string
  | JObject "(string \<times> jsval) list"

type_synonym 'v obj = "(string \<times> 'v) list"

text \<open>
  An exception is a value: \<open>JacksonError message status\<close> is the handler's own error
  class, \<open>Thrown message\<close> any other exception (a \<^verbatim>\<open>TypeError\<close>, a rejected promise
  of a collaborator), carrying what \<^verbatim>\<open>err.message\<close> renders.
\<close>

datatype error = JacksonError string nat | Thrown string

fun error_message :: "error \<Rightarrow> string" where
  "error_message (JacksonError m _) = m"
| "error_message (Thrown m) = m"

text \<open>
  The truthiness test \<^verbatim>\<open>if (s)\<close> on an optional string: \<^verbatim>\<open>undefined\<close> and the
  empty string are falsy. \<open>present\<close> returns the string when the test passes.
\<close>

definition present :: "string option \<Rightarrow> string option" where
  "present s = (case s of None \<Rightarrow> None | Some x \<Rightarrow> if x = [] then None else Some x)"

definition truthy :: "string option \<Rightarrow> bool" where
  "truthy s = (present s \<noteq> None)"

text \<open>A template literal \<^verbatim>\<open>`${x}`\<close> renders \<^verbatim>\<open>undefined\<close> as the word.\<close>

definition template :: "string option \<Rightarrow> string" where
  "template s = (case s of None \<Rightarrow> ''undefined'' | Some x \<Rightarrow> x)"

definition js_of :: "string option \<Rightarrow> jsval" where
  "js_of s = (case s of None \<Rightarrow> JUndefined | Some x \<Rightarrow> JString x)"

subsection \<open>Own properties and their order\<close>

text \<open>
  Enumerating an object (a spread, \<^verbatim>\<open>new URLSearchParams(obj)\<close>) visits the keys that
  are array indices first, in ascending numeric order, then the other keys in insertion
  order. An array index is a canonical decimal numeral below \<open>2^32 - 1\<close>.
\<close>

definition is_digit :: "char \<Rightarrow> bool" where
  "is_digit c = (48 \<le> (of_char c :: int) \<and> (of_char c :: int) \<le> 57)"

definition index_value :: "string \<Rightarrow> int" where
  "index_value k = foldl (\<lambda>n c. 10 * n + ((of_char c :: int) - 48)) 0 k"

definition is_array_index :: "string \<Rightarrow> bool" where
  "is_array_index k =
     (case k of
        [] \<Rightarrow> False
      | c # cs \<Rightarrow>
          list_all is_digit k \<and> (if c = CHR ''0'' then cs = [] else True)
          \<and> index_value k < 4294967295)"

definition own_entries :: "'v obj \<Rightarrow> 'v obj" where
  "own_entries ob =
     sort_key (\<lambda>kv. index_value (fst kv)) (filter (\<lambda>kv. is_array_index (fst kv)) ob)
     @ filter (\<lambda>kv. \<not> is_array_index (fst kv)) ob"

text \<open>Property read \<^verbatim>\<open>o.k\<close> and property write \<^verbatim>\<open>o[k] = v\<close>: a key that exists
  keeps its place, a new key is added last.\<close>

definition get_prop :: "'v obj \<Rightarrow> string \<Rightarrow> 'v option" where
  "get_prop ob k = map_of ob k"

fun obj_set :: "string \<Rightarrow> 'v \<Rightarrow> 'v obj \<Rightarrow> 'v obj" where
  "obj_set k v [] = [(k, v)]"
| "obj_set k v (kv # rest) =
     (if fst kv = k then (k, v) # rest else kv # obj_set k v rest)"

text \<open>The spread \<^verbatim>\<open>{...target, ...src}\<close>: the properties of \<open>src\<close> are copied into
  \<open>target\<close> in enumeration order.\<close>

definition spread :: "'v obj \<Rightarrow> 'v obj \<Rightarrow> 'v obj" where
  "spread target src = fold (\<lambda>kv. obj_set (fst kv) (snd kv)) (own_entries src) target"

text \<open>Reading a property of a value typed \<^verbatim>\<open>any\<close>: \<^verbatim>\<open>undefined\<close> and \<^verbatim>\<open>null\<close>
  throw a \<^verbatim>\<open>TypeError\<close>; a missing property reads as \<^verbatim>\<open>undefined\<close>.\<close>

fun get_member :: "jsval \<Rightarrow> string \<Rightarrow> error + jsval" where
  "get_member JUndefined k = Inl (Thrown ''Cannot read properties of undefined'')"
| "get_member JNull k = Inl (Thrown ''Cannot read properties of null'')"
| "get_member (JObject ob) k = Inr (case map_of ob k of None \<Rightarrow> JUndefined | Some v \<Rightarrow> v)"
| "get_member _ k = Inr JUndefined"

section \<open>Data model\<close>

text \<open>
  Modelled from the spec: the typings that the handler imports (\<^verbatim>\<open>SAMLSSORecord\<close>,
  \<^verbatim>\<open>OIDCSSORecord\<close>, \<^verbatim>\<open>JacksonOption\<close>, \<^verbatim>\<open>JacksonError\<close>,
  \<^verbatim>\<open>IndexNames\<close>) are declared in modules that are not part of the source of the
  handler. The records follow the data model of the specification and hold the fields
  that the handler reads or writes; a field or a key that may be absent is an option,
  \<open>None\<close> when it is absent.
\<close>

record sso_endpoints =
  redirectUrl :: "string option"
  postUrl :: "string option"

record sso_record =
  clientID :: string

record saml_sso_record = sso_record +
  idpMetadata_sso :: sso_endpoints
  forceAuthn :: "bool option"
  identifierFormat :: "string option"

record oidc_provider =
  discoveryUrl :: "string option"
  metadata :: "jsval option"
  clientId :: "string option"
  clientSecret :: "string option"

record oidc_sso_record = sso_record +
  oidcProvider :: oidc_provider

datatype connection = SAMLSSORecord saml_sso_record | OIDCSSORecord oidc_sso_record

fun connection_clientID :: "connection \<Rightarrow> string" where
  "connection_clientID (SAMLSSORecord c) = clientID c"
| "connection_clientID (OIDCSSORecord c) = clientID c"

datatype auth_flow = OAuth | Saml | IdpInitiated

fun auth_flow_string :: "auth_flow \<Rightarrow> string" where
  "auth_flow_string OAuth = ''oauth''"
| "auth_flow_string Saml = ''saml''"
| "auth_flow_string IdpInitiated = ''idp-initiated''"

record resolve_params =
  authFlow :: auth_flow
  originalParams :: "string obj"
  tenant :: "string option"
  product :: "string option"
  entityId :: "string option"
  idp_hint :: "string option"
  samlFedAppId :: "string option"

datatype resolution = Connection connection | RedirectUrl string | PostForm string

record session =
  id' :: string
  requested :: jsval
  samlFederated :: bool
  oidcCodeVerifier :: "string option"
  oidcNonce :: "string option"

record jackson_option =
  externalUrl :: string
  samlPath :: string
  samlAudience :: "string option"
  idpDiscoveryPath :: "string option"
  oidcPath :: "string option"

datatype index_name = TenantProduct | EntityID

record certificate =
  privateKey :: string
  publicKey :: string

record saml_request_args =
  req_ssoUrl :: jsval
  req_entityID :: string
  req_callbackUrl :: string
  req_signingKey :: string
  req_publicKey :: string
  req_forceAuthn :: bool
  req_identifierFormat :: string

record saml_request_result =
  request_id :: string
  request :: string

record saml_response_args =
  resp_audience :: jsval
  resp_acsUrl :: jsval
  resp_requestId :: jsval
  resp_issuer :: string
  resp_profile :: jsval
  resp_privateKey :: string
  resp_publicKey :: string

record oidc_client_args =
  client_id :: "string option"
  client_secret :: "string option"
  redirect_uris :: "string list"
  response_types :: "string list"

record authorization_args =
  scope :: string
  code_challenge :: string
  code_challenge_method :: string
  state :: string
  nonce :: string

section \<open>Collaborators and the world\<close>

text \<open>
  The handler is built over injected collaborators (the connection store, the session
  store, the certificate provider, the SAML toolkit, the OIDC client library, the
  redirect helper) and uses built-ins of the platform (\<^verbatim>\<open>URL\<close>,
  \<^verbatim>\<open>URLSearchParams\<close>, \<^verbatim>\<open>crypto.randomBytes\<close>, \<^verbatim>\<open>zlib.deflateRaw\<close>,
  \<^verbatim>\<open>Buffer\<close>). None of them is part of the handler; each is a field of \<open>env\<close>,
  giving the answer of the call, an \<open>Inl\<close> when the call throws or rejects.
  \<open>relayStatePrefix\<close> and \<open>keyFromParts\<close> are imported by the handler from
  modules that are not part of the source at hand, and are fields too.
\<close>

text \<open>A hidden field of an auto-submit form, \<^verbatim>\<open>{name, value}\<close>.\<close>

type_synonym form_field = "string \<times> jsval"

record env =
  opts :: jackson_option
  relayStatePrefix :: string
  keyFromParts :: "string \<Rightarrow> string \<Rightarrow> string"
  getByIndex :: "index_name \<Rightarrow> string \<Rightarrow> error + connection list"
  new_URL :: "string \<Rightarrow> error + string"
  URLSearchParams :: "string obj \<Rightarrow> string"
  createPostForm :: "jsval \<Rightarrow> form_field list \<Rightarrow> error + string"
  getDefaultCertificate :: "error + certificate"
  saml_request :: "saml_request_args \<Rightarrow> error + saml_request_result"
  randomBytes_hex :: string
  session_put :: "string \<Rightarrow> session \<Rightarrow> error option"
  deflateRaw :: "string \<Rightarrow> error + string"
  base64 :: "string \<Rightarrow> string"
  redirect_success :: "jsval \<Rightarrow> string obj \<Rightarrow> error + string"
  oidcIssuerInstance :: "string option \<Rightarrow> jsval option \<Rightarrow> error + string"
  oidcClient :: "string \<Rightarrow> oidc_client_args \<Rightarrow> error + string"
  codeVerifier :: string
  codeChallenge :: "string \<Rightarrow> string"
  generate_nonce :: string
  authorizationUrl :: "string \<Rightarrow> authorization_args \<Rightarrow> error + string"
  lib_createSAMLResponse :: "saml_response_args \<Rightarrow> error + string"

text \<open>Every call that reaches a collaborator is recorded, in order, in the world.\<close>

datatype call =
    GetByIndex index_name string
  | CreatePostForm
  | GetDefaultCertificate
  | SamlRequest
  | SessionPut string
  | RedirectSuccess
  | OidcIssuerInstance
  | OidcClient
  | OidcGenerators
  | AuthorizationUrl
  | LibCreateSAMLResponse

text \<open>
  Modelled from the spec: the session store (a \<^verbatim>\<open>Storable\<close>) is implemented outside
  the source of the handler; it is the key-value store of the specification, in which a
  \<open>put\<close> that succeeds makes the value readable under its key. Whether a \<open>put\<close>
  succeeds is the answer \<open>session_put\<close> of the environment.
\<close>

record world =
  sessions :: "string \<rightharpoonup> session"
  calls :: "call list"

definition log_call :: "call \<Rightarrow> world \<Rightarrow> world" where
  "log_call c w = w\<lparr>calls := calls w @ [c]\<rparr>"

section \<open>resolveConnection\<close>

definition noSSOConnectionErrMessage :: string where
  "noSSOConnectionErrMessage = ''No SSO connection found.''"

text \<open>Lines 63 to 82: the two lookups; \<open>None\<close> is \<^verbatim>\<open>null\<close>, no lookup made.\<close>

definition lookupConnections ::
  "env \<Rightarrow> resolve_params \<Rightarrow> world \<Rightarrow> (error + connection list option) \<times> world" where
  "lookupConnections env p w =
     (let step1 =
        (case (present (tenant p), present (product p)) of
           (Some t, Some pr) \<Rightarrow>
             (let key = keyFromParts env t pr;
                  w1 = log_call (GetByIndex TenantProduct key) w
              in case getByIndex env TenantProduct key of
                   Inl e \<Rightarrow> (Inl e, w1)
                 | Inr d \<Rightarrow> (Inr (Some d), w1))
         | _ \<Rightarrow> (Inr None, w))
      in case step1 of
           (Inl e, w1) \<Rightarrow> (Inl e, w1)
         | (Inr c1, w1) \<Rightarrow>
             (case present (entityId p) of
                Some eid \<Rightarrow>
                  (let w2 = log_call (GetByIndex EntityID eid) w1
                   in case getByIndex env EntityID eid of
                        Inl e \<Rightarrow> (Inl e, w2)
                      | Inr d \<Rightarrow> (Inr (Some d), w2))
              | None \<Rightarrow> (Inr c1, w1)))"

text \<open>Lines 107 to 113: the object given to \<^verbatim>\<open>URLSearchParams\<close> in the SP-initiated
  branch; \<open>samlFedAppId\<close> defaults to the empty string.\<close>

definition spInitiatedParams :: "string \<Rightarrow> string \<Rightarrow> resolve_params \<Rightarrow> string obj" where
  "spInitiatedParams t pr p =
     spread [(''tenant'', t), (''product'', pr), (''authFlow'', ''sp-initiated''),
             (''samlFedAppId'', (case samlFedAppId p of None \<Rightarrow> [] | Some f \<Rightarrow> f))]
            (originalParams p)"

text \<open>Lines 84 to 137: the decision on the set that the lookups left.\<close>

definition selectConnection ::
  "env \<Rightarrow> resolve_params \<Rightarrow> connection list option \<Rightarrow> world \<Rightarrow> (error + resolution) \<times> world" where
  "selectConnection env p connections w =
     (case connections of
        None \<Rightarrow> (Inl (JacksonError noSSOConnectionErrMessage 404), w)
      | Some [] \<Rightarrow> (Inl (JacksonError noSSOConnectionErrMessage 404), w)
      | Some (c0 # rest) \<Rightarrow>
          (case present (idp_hint p) of
             Some hint \<Rightarrow>
               (case find (\<lambda>c. connection_clientID c = hint) (c0 # rest) of
                  None \<Rightarrow> (Inl (JacksonError noSSOConnectionErrMessage 404), w)
                | Some c \<Rightarrow> (Inr (Connection c), w))
           | None \<Rightarrow>
               if length (c0 # rest) > 1 then
                 (case new_URL env (externalUrl (opts env) @ template (idpDiscoveryPath (opts env))) of
                    Inl e \<Rightarrow> (Inl e, w)
                  | Inr url \<Rightarrow>
                      (case (authFlow p = OAuth \<or> authFlow p = Saml,
                             present (tenant p), present (product p)) of
                         (True, Some t, Some pr) \<Rightarrow>
                           (Inr (RedirectUrl
                                  (url @ ''?'' @ URLSearchParams env (own_entries (spInitiatedParams t pr p)))),
                            w)
                       | _ \<Rightarrow>
                           (case (authFlow p = IdpInitiated, present (entityId p)) of
                              (True, Some eid) \<Rightarrow>
                                (let w1 = log_call CreatePostForm w
                                 in case createPostForm env
                                      (JString (template (idpDiscoveryPath (opts env)) @ ''?''
                                         @ URLSearchParams env
                                             [(''entityId'', eid),
                                              (''authFlow'', auth_flow_string (authFlow p))]))
                                      [(''SAMLResponse'',
                                        js_of (get_prop (originalParams p) ''SAMLResponse''))]
                                    of Inl e \<Rightarrow> (Inl e, w1)
                                     | Inr form \<Rightarrow> (Inr (PostForm form), w1))
                            | _ \<Rightarrow> (Inr (Connection c0), w))))
               else (Inr (Connection c0), w)))"

definition resolveConnection ::
  "env \<Rightarrow> resolve_params \<Rightarrow> world \<Rightarrow> (error + resolution) \<times> world" where
  "resolveConnection env p w =
     (case lookupConnections env p w of
        (Inl e, w1) \<Rightarrow> (Inl e, w1)
      | (Inr connections, w1) \<Rightarrow> selectConnection env p connections w1)"

section \<open>createSession\<close>

text \<open>Lines 292 to 322. The identifier is the answer of \<^verbatim>\<open>crypto.randomBytes\<close>; the
  two OIDC fields are set only when their argument passes the truthiness test.\<close>

definition createSession ::
  "env \<Rightarrow> string \<Rightarrow> jsval \<Rightarrow> string option \<Rightarrow> string option \<Rightarrow> world
     \<Rightarrow> (error + string) \<times> world" where
  "createSession env requestId req verifier nonce_arg w =
     (let sessionId = randomBytes_hex env;
          s0 = \<lparr>id' = requestId, requested = req, samlFederated = True,
                oidcCodeVerifier = None, oidcNonce = None\<rparr>;
          s1 = (case present verifier of
                  Some v \<Rightarrow> s0\<lparr>oidcCodeVerifier := Some v\<rparr>
                | None \<Rightarrow> s0);
          s2 = (case present nonce_arg of
                  Some n \<Rightarrow> s1\<lparr>oidcNonce := Some n\<rparr>
                | None \<Rightarrow> s1);
          w1 = log_call (SessionPut sessionId) w
      in case session_put env sessionId s2 of
           Some e \<Rightarrow> (Inl e, w1)
         | None \<Rightarrow>
             (Inr (relayStatePrefix env @ sessionId),
              w1\<lparr>sessions := (sessions w1)(sessionId \<mapsto> s2)\<rparr>))"

section \<open>createSAMLRequest\<close>

record saml_request_output =
  redirect_url :: "string option"
  authorize_form :: "string option"

text \<open>Lines 150 to 160: the endpoint and the \<^verbatim>\<open>post\<close> flag. A key of
  \<^verbatim>\<open>idpMetadata.sso\<close> that is absent is \<open>None\<close>; with neither key the endpoint
  stays \<^verbatim>\<open>undefined\<close> and the flag \<^verbatim>\<open>false\<close>.\<close>

definition select_binding :: "sso_endpoints \<Rightarrow> jsval \<times> bool" where
  "select_binding sso =
     (case redirectUrl sso of
        Some r \<Rightarrow> (JString r, False)
      | None \<Rightarrow>
          (case postUrl sso of
             Some u \<Rightarrow> (JString u, True)
           | None \<Rightarrow> (JUndefined, False)))"

text \<open>Lines 162 to 172: the argument of \<^verbatim>\<open>saml.request\<close>.\<close>

definition samlRequestArgs ::
  "env \<Rightarrow> saml_sso_record \<Rightarrow> certificate \<Rightarrow> jsval \<Rightarrow> saml_request_args" where
  "samlRequestArgs env connection cert ssoUrl =
     \<lparr>req_ssoUrl = ssoUrl,
      req_entityID = template (samlAudience (opts env)),
      req_callbackUrl = externalUrl (opts env) @ samlPath (opts env),
      req_signingKey = privateKey cert,
      req_publicKey = publicKey cert,
      req_forceAuthn = (forceAuthn connection = Some True),
      req_identifierFormat =
        (case present (identifierFormat connection) of
           Some f \<Rightarrow> f
         | None \<Rightarrow> ''urn:oasis:names:tc:SAML:1.1:nameid-format:emailAddress'')\<rparr>"

text \<open>Lines 176 to 179: the context stored in the session.\<close>

definition samlRequested :: "saml_sso_record \<Rightarrow> jsval obj \<Rightarrow> jsval obj" where
  "samlRequested connection requestParams =
     obj_set ''client_id'' (JString (clientID connection)) (spread [] requestParams)"

definition createSAMLRequest ::
  "env \<Rightarrow> saml_sso_record \<Rightarrow> jsval obj \<Rightarrow> world \<Rightarrow> (error + saml_request_output) \<times> world" where
  "createSAMLRequest env connection requestParams w =
     (let w1 = log_call GetDefaultCertificate w
      in case getDefaultCertificate env of
           Inl e \<Rightarrow> (Inl e, w1)
         | Inr cert \<Rightarrow>
             (let ssoUrl = fst (select_binding (idpMetadata_sso connection));
                  post = snd (select_binding (idpMetadata_sso connection));
                  w2 = log_call SamlRequest w1
              in case saml_request env (samlRequestArgs env connection cert ssoUrl) of
                   Inl e \<Rightarrow> (Inl e, w2)
                 | Inr samlRequest \<Rightarrow>
                     (case createSession env (request_id samlRequest)
                             (JObject (samlRequested connection requestParams)) None None w2 of
                        (Inl e, w3) \<Rightarrow> (Inl e, w3)
                      | (Inr relayState, w3) \<Rightarrow>
                          if \<not> post then
                            (case deflateRaw env (request samlRequest) of
                               Inl e \<Rightarrow> (Inl e, w3)
                             | Inr deflated \<Rightarrow>
                                 (let w4 = log_call RedirectSuccess w3
                                  in case redirect_success env ssoUrl
                                            [(''RelayState'', relayState),
                                             (''SAMLRequest'', base64 env deflated)] of
                                       Inl e \<Rightarrow> (Inl e, w4)
                                     | Inr url \<Rightarrow>
                                         (Inr \<lparr>redirect_url = Some url, authorize_form = None\<rparr>, w4)))
                          else
                            (let w4 = log_call CreatePostForm w3
                             in case createPostForm env ssoUrl
                                       [(''RelayState'', JString relayState),
                                        (''SAMLRequest'', JString (base64 env (request samlRequest)))] of
                                  Inl e \<Rightarrow> (Inl e, w4)
                                | Inr form \<Rightarrow>
                                    (Inr \<lparr>redirect_url = None, authorize_form = Some form\<rparr>, w4)))))"

section \<open>createOIDCRequest\<close>

text \<open>Lines 224 to 253, the body of the \<^verbatim>\<open>try\<close>; \<open>path\<close> is the configured
  \<^verbatim>\<open>oidcPath\<close>.\<close>

definition oidcRequestBody ::
  "env \<Rightarrow> string \<Rightarrow> oidc_sso_record \<Rightarrow> jsval obj \<Rightarrow> world \<Rightarrow> (error + string) \<times> world" where
  "oidcRequestBody env path connection requestParams w =
     (let provider = oidcProvider connection;
          w1 = log_call OidcIssuerInstance w
      in case oidcIssuerInstance env (discoveryUrl provider) (metadata provider) of
           Inl e \<Rightarrow> (Inl e, w1)
         | Inr oidcIssuer \<Rightarrow>
             (let w2 = log_call OidcClient w1
              in case oidcClient env oidcIssuer
                        \<lparr>client_id = clientId provider,
                         client_secret = clientSecret provider,
                         redirect_uris = [externalUrl (opts env) @ path],
                         response_types = [''code'']\<rparr> of
                   Inl e \<Rightarrow> (Inl e, w2)
                 | Inr client \<Rightarrow>
                     (let w3 = log_call OidcGenerators w2;
                          verifier = codeVerifier env;
                          challenge = codeChallenge env verifier;
                          nonce_value = generate_nonce env
                      in case createSession env (clientID connection) (JObject requestParams)
                                (Some verifier) (Some nonce_value) w3 of
                           (Inl e, w4) \<Rightarrow> (Inl e, w4)
                         | (Inr relayState, w4) \<Rightarrow>
                             (let w5 = log_call AuthorizationUrl w4
                              in case authorizationUrl env client
                                        \<lparr>scope = ''openid email profile'',
                                         code_challenge = challenge,
                                         code_challenge_method = ''S256'',
                                         state = relayState,
                                         nonce = nonce_value\<rparr> of
                                   Inl e \<Rightarrow> (Inl e, w5)
                                 | Inr ssoUrl \<Rightarrow> (Inr ssoUrl, w5)))))"

text \<open>Lines 217 to 257. The result is the \<^verbatim>\<open>redirect_url\<close> of the returned object; the
  \<^verbatim>\<open>console.error\<close> of the handler is not recorded.\<close>

definition createOIDCRequest ::
  "env \<Rightarrow> oidc_sso_record \<Rightarrow> jsval obj \<Rightarrow> world \<Rightarrow> (error + string) \<times> world" where
  "createOIDCRequest env connection requestParams w =
     (case present (oidcPath (opts env)) of
        None \<Rightarrow>
          (Inl (JacksonError ''OpenID response handler path (oidcPath) is not set'' 400), w)
      | Some path \<Rightarrow>
          (case oidcRequestBody env path connection requestParams w of
             (Inl err, w1) \<Rightarrow>
               (Inl (JacksonError (''Unable to complete OIDC request. - '' @ error_message err) 400),
                w1)
           | (Inr url, w1) \<Rightarrow> (Inr url, w1)))"

section \<open>createSAMLResponse\<close>

text \<open>Lines 264 to 284, the body of the \<^verbatim>\<open>try\<close>. The session is typed \<^verbatim>\<open>any\<close>;
  reading \<^verbatim>\<open>session.requested.entityId\<close> throws inside the \<^verbatim>\<open>try\<close> when
  \<^verbatim>\<open>session\<close> or \<^verbatim>\<open>session.requested\<close> is \<^verbatim>\<open>undefined\<close> or \<^verbatim>\<open>null\<close>.\<close>

definition samlResponseBody ::
  "env \<Rightarrow> certificate \<Rightarrow> jsval \<Rightarrow> jsval \<Rightarrow> world \<Rightarrow> (error + string) \<times> world" where
  "samlResponseBody env cert profile sess w =
     (case get_member sess ''requested'' of
        Inl e \<Rightarrow> (Inl e, w)
      | Inr req \<Rightarrow>
     (case get_member req ''entityId'' of
        Inl e \<Rightarrow> (Inl e, w)
      | Inr audience \<Rightarrow>
     (case get_member req ''acsUrl'' of
        Inl e \<Rightarrow> (Inl e, w)
      | Inr acsUrl \<Rightarrow>
     (case get_member req ''id'' of
        Inl e \<Rightarrow> (Inl e, w)
      | Inr requestId \<Rightarrow>
          (let w1 = log_call LibCreateSAMLResponse w
           in case lib_createSAMLResponse env
                     \<lparr>resp_audience = audience,
                      resp_acsUrl = acsUrl,
                      resp_requestId = requestId,
                      resp_issuer = template (samlAudience (opts env)),
                      resp_profile = profile,
                      resp_privateKey = privateKey cert,
                      resp_publicKey = publicKey cert\<rparr> of
                Inl e \<Rightarrow> (Inl e, w1)
              | Inr responseSigned \<Rightarrow>
                  (case get_member req ''relayState'' of
                     Inl e \<Rightarrow> (Inl e, w1)
                   | Inr relayState \<Rightarrow>
                       (let w2 = log_call CreatePostForm w1
                        in case createPostForm env acsUrl
                                  [(''RelayState'', relayState),
                                   (''SAMLResponse'', JString (base64 env responseSigned))] of
                             Inl e \<Rightarrow> (Inl e, w2)
                           | Inr responseForm \<Rightarrow> (Inr responseForm, w2))))))))"

text \<open>Lines 260 to 289. The certificate is obtained before the \<^verbatim>\<open>try\<close> is entered.\<close>

definition createSAMLResponse ::
  "env \<Rightarrow> jsval \<Rightarrow> jsval \<Rightarrow> world \<Rightarrow> (error + string) \<times> world" where
  "createSAMLResponse env profile sess w =
     (let w1 = log_call GetDefaultCertificate w
      in case getDefaultCertificate env of
           Inl e \<Rightarrow> (Inl e, w1)
         | Inr cert \<Rightarrow>
             (case samlResponseBody env cert profile sess w1 of
                (Inl err, w2) \<Rightarrow> (Inl (JacksonError ''Unable to validate SAML Response.'' 403), w2)
              | (Inr responseForm, w2) \<Rightarrow> (Inr responseForm, w2)))"

section \<open>A concrete deployment\<close>

text \<open>
  One broker with a tenant \<open>acme\<close>, product \<open>crm\<close>, that has two SAML
  connections, and an entity id \<open>idp-1\<close> with one. The collaborators are the simplest
  ones that answer: the query serialiser joins \<open>key=value\<close> with \<open>&\<close>, which is the
  form-urlencoded serialisation on keys and values of unreserved characters; the
  redirect helper refuses an endpoint that is not a string.
\<close>

fun plain_query :: "string obj \<Rightarrow> string" where
  "plain_query [] = []"
| "plain_query [kv] = fst kv @ ''='' @ snd kv"
| "plain_query (kv # rest) = fst kv @ ''='' @ snd kv @ ''&'' @ plain_query rest"

definition conn_a :: saml_sso_record where
  "conn_a =
     \<lparr>clientID = ''client-a'',
      idpMetadata_sso = \<lparr>redirectUrl = Some ''https://idp-a.example.com/sso'', postUrl = None\<rparr>,
      forceAuthn = None, identifierFormat = None\<rparr>"

definition conn_b :: saml_sso_record where
  "conn_b =
     \<lparr>clientID = ''client-b'',
      idpMetadata_sso = \<lparr>redirectUrl = None, postUrl = Some ''https://idp-b.example.com/post''\<rparr>,
      forceAuthn = Some True, identifierFormat = None\<rparr>"

definition conn_both :: saml_sso_record where
  "conn_both =
     \<lparr>clientID = ''client-c'',
      idpMetadata_sso = \<lparr>redirectUrl = Some ''https://idp-c.example.com/sso'',
                         postUrl = Some ''https://idp-c.example.com/post''\<rparr>,
      forceAuthn = None, identifierFormat = None\<rparr>"

definition conn_none :: saml_sso_record where
  "conn_none =
     \<lparr>clientID = ''client-d'',
      idpMetadata_sso = \<lparr>redirectUrl = None, postUrl = None\<rparr>,
      forceAuthn = None, identifierFormat = None\<rparr>"

definition conn_oidc :: oidc_sso_record where
  "conn_oidc =
     \<lparr>clientID = ''client-o'',
      oidcProvider = \<lparr>discoveryUrl = Some ''https://op.example.com/.well-known/openid-configuration'',
                      metadata = None, clientId = Some ''rp'', clientSecret = Some ''secret''\<rparr>\<rparr>"

definition example_store :: "index_name \<Rightarrow> string \<Rightarrow> error + connection list" where
  "example_store ix v =
     (if ix = TenantProduct \<and> v = ''acme:crm'' then Inr [SAMLSSORecord conn_a, SAMLSSORecord conn_b]
      else if ix = EntityID \<and> v = ''idp-1'' then Inr [SAMLSSORecord conn_a]
      else if ix = EntityID \<and> v = ''idp-2'' then Inr [SAMLSSORecord conn_b, SAMLSSORecord conn_both]
      else Inr [])"

definition example_redirect :: "jsval \<Rightarrow> string obj \<Rightarrow> error + string" where
  "example_redirect url ps =
     (case url of
        JString u \<Rightarrow> Inr (u @ ''?'' @ plain_query ps)
      | _ \<Rightarrow> Inl (Thrown ''Invalid URL''))"

definition example_env :: env where
  "example_env =
     \<lparr>opts = \<lparr>externalUrl = ''https://sso.example.com'', samlPath = ''/api/oauth/saml'',
              samlAudience = Some ''https://saml.example.com'',
              idpDiscoveryPath = Some ''/idp/select'', oidcPath = Some ''/api/oauth/oidc''\<rparr>,
      relayStatePrefix = ''relay_'',
      keyFromParts = (\<lambda>t pr. t @ '':'' @ pr),
      getByIndex = example_store,
      new_URL = Inr,
      URLSearchParams = plain_query,
      createPostForm = (\<lambda>url fields. Inr ''<form/>''),
      getDefaultCertificate = Inr \<lparr>privateKey = ''PRIVATE'', publicKey = ''PUBLIC''\<rparr>,
      saml_request = (\<lambda>a. Inr \<lparr>request_id = ''_r1'', request = ''<AuthnRequest/>''\<rparr>),
      randomBytes_hex = ''00ff'',
      session_put = (\<lambda>k s. None),
      deflateRaw = (\<lambda>s. Inr (''z:'' @ s)),
      base64 = (\<lambda>s. ''b64:'' @ s),
      redirect_success = example_redirect,
      oidcIssuerInstance = (\<lambda>url md. Inr ''issuer''),
      oidcClient = (\<lambda>issuer a. Inr ''client''),
      codeVerifier = ''verifier'',
      codeChallenge = (\<lambda>v. ''challenge'' ),
      generate_nonce = ''n-1'',
      authorizationUrl = (\<lambda>client a. Inr (''https://op.example.com/authorize?state='' @ state a)),
      lib_createSAMLResponse = (\<lambda>a. Inr ''<Response/>'')\<rparr>"

definition empty_world :: world where
  "empty_world = \<lparr>sessions = Map.empty, calls = []\<rparr>"

definition example_params :: resolve_params where
  "example_params =
     \<lparr>authFlow = Saml, originalParams = [(''state'', ''s1'')],
      tenant = Some ''acme'', product = Some ''crm'', entityId = None,
      idp_hint = None, samlFedAppId = None\<rparr>"

section \<open>Facts about objects\<close>

text \<open>A property write changes one key; a spread lets the source win on a key that both
  objects have; enumeration changes the order only.\<close>

lemma map_of_obj_set: "map_of (obj_set k v ob) = (map_of ob)(k \<mapsto> v)"
  by (induction ob) (auto simp: fun_eq_iff)

lemma keys_obj_set: "fst ` set (obj_set k v ob) = insert k (fst ` set ob)"
  by (induction ob) auto

lemma distinct_obj_set: "distinct (map fst ob) \<Longrightarrow> distinct (map fst (obj_set k v ob))"
  by (induction ob) (auto simp: keys_obj_set)

lemma map_of_fold_obj_set:
  "map_of (fold (\<lambda>kv. obj_set (fst kv) (snd kv)) xs t) = map_of t ++ map_of (rev xs)"
  by (induction xs arbitrary: t) (auto simp: map_of_obj_set fun_eq_iff map_add_def split: option.splits)

lemma distinct_fold_obj_set:
  "distinct (map fst t) \<Longrightarrow> distinct (map fst (fold (\<lambda>kv. obj_set (fst kv) (snd kv)) xs t))"
  by (induction xs arbitrary: t) (auto simp: distinct_obj_set)

lemma set_own_entries: "set (own_entries ob) = set ob"
  by (auto simp: own_entries_def)

lemma distinct_own_entries:
  assumes "distinct (map fst ob)"
  shows "distinct (map fst (own_entries ob))"
proof -
  have d: "distinct (own_entries ob)"
    using assms by (auto simp: own_entries_def distinct_map)
  have "inj_on fst (set (own_entries ob))"
    using assms by (simp add: set_own_entries distinct_map)
  with d show ?thesis by (simp add: distinct_map)
qed

lemma map_of_own_entries:
  "distinct (map fst ob) \<Longrightarrow> map_of (own_entries ob) = map_of ob"
  by (simp add: map_of_inject_set distinct_own_entries set_own_entries)

lemma map_of_rev_distinct:
  assumes "distinct (map fst xs)"
  shows "map_of (rev xs) = map_of xs"
proof -
  have "distinct (map fst (rev xs))"
    by (metis assms distinct_rev rev_map)
  then show ?thesis
    using map_of_inject_set [of "rev xs" xs] assms by simp
qed

lemma map_of_spread:
  "distinct (map fst src) \<Longrightarrow> map_of (spread target src) = map_of target ++ map_of src"
  by (simp add: spread_def map_of_fold_obj_set map_of_rev_distinct distinct_own_entries
      map_of_own_entries)

lemma distinct_spread:
  "distinct (map fst target) \<Longrightarrow> distinct (map fst (spread target src))"
  by (simp add: spread_def distinct_fold_obj_set)

section \<open>Properties of resolveConnection\<close>

lemmas example_defs = example_env_def example_store_def example_params_def empty_world_def
  conn_a_def conn_b_def conn_both_def conn_none_def conn_oidc_def example_redirect_def

text \<open>What the two lookups leave, on each of the three paths through lines 63 to 82.\<close>

lemma lookupConnections_no_lookup:
  assumes "present (tenant p) = None \<or> present (product p) = None"
    and "present (entityId p) = None"
  shows "lookupConnections env p w = (Inr None, w)"
  using assms by (auto simp: lookupConnections_def split: option.splits)

lemma lookupConnections_tenant_product:
  assumes "present (tenant p) = Some t" and "present (product p) = Some pr"
    and "present (entityId p) = None"
    and "getByIndex env TenantProduct (keyFromParts env t pr) = Inr d"
  shows "fst (lookupConnections env p w) = Inr (Some d)"
  using assms by (simp add: lookupConnections_def)

lemma lookupConnections_entityId:
  assumes "present (tenant p) = None \<or> present (product p) = None"
    and "present (entityId p) = Some eid"
    and "getByIndex env EntityID eid = Inr d"
  shows "fst (lookupConnections env p w) = Inr (Some d)"
  using assms by (auto simp: lookupConnections_def split: option.splits)

text \<open>
  Claim C1. Whenever the lookups of \<open>resolveConnection\<close> leave an empty set of
  connections, or no lookup was made at all and the set is still \<^verbatim>\<open>null\<close>, the call
  fails with the error of status 404 and message \<open>No SSO connection found.\<close>, whichever
  of the two lookups produced the set.
\<close>

theorem resolveConnection_empty_NotFound:
  assumes "fst (lookupConnections env p w) = Inr connections"
    and "connections = None \<or> connections = Some []"
  shows "fst (resolveConnection env p w) = Inl (JacksonError ''No SSO connection found.'' 404)"
proof -
  obtain w1 where l: "lookupConnections env p w = (Inr connections, w1)"
    using assms(1) by (cases "lookupConnections env p w") auto
  from assms(2) have "fst (selectConnection env p connections w1)
      = Inl (JacksonError ''No SSO connection found.'' 404)"
    by (auto simp: selectConnection_def noSSOConnectionErrMessage_def)
  with l show ?thesis
    by (simp add: resolveConnection_def)
qed

theorem resolveConnection_empty_NotFound_witness:
  "fst (lookupConnections example_env (example_params\<lparr>entityId := Some ''idp-9''\<rparr>) empty_world)
     = Inr (Some [])
   \<and> fst (resolveConnection example_env (example_params\<lparr>entityId := Some ''idp-9''\<rparr>) empty_world)
     = Inl (JacksonError ''No SSO connection found.'' 404)
   \<and> fst (lookupConnections example_env (example_params\<lparr>product := Some ''erp''\<rparr>) empty_world)
     = Inr (Some [])
   \<and> fst (resolveConnection example_env (example_params\<lparr>product := Some ''erp''\<rparr>) empty_world)
     = Inl (JacksonError ''No SSO connection found.'' 404)
   \<and> fst (lookupConnections example_env (example_params\<lparr>tenant := None\<rparr>) empty_world)
     = Inr None
   \<and> fst (resolveConnection example_env (example_params\<lparr>tenant := None\<rparr>) empty_world)
     = Inl (JacksonError ''No SSO connection found.'' 404)"
proof -
  have h1: "fst (lookupConnections example_env (example_params\<lparr>entityId := Some ''idp-9''\<rparr>) empty_world)
     = Inr (Some [])"
    by (simp add: lookupConnections_def present_def example_defs log_call_def)
  have h2: "fst (lookupConnections example_env (example_params\<lparr>product := Some ''erp''\<rparr>) empty_world)
     = Inr (Some [])"
    by (simp add: lookupConnections_def present_def example_defs log_call_def)
  have h3: "fst (lookupConnections example_env (example_params\<lparr>tenant := None\<rparr>) empty_world)
     = Inr None"
    by (simp add: lookupConnections_def present_def example_defs log_call_def)
  show ?thesis
    using h1 h2 h3 resolveConnection_empty_NotFound [OF h1] resolveConnection_empty_NotFound [OF h2]
      resolveConnection_empty_NotFound [OF h3]
    by simp
qed

text \<open>
  Claim C2. When a tenant and product pair and an entity id are all supplied (each
  passes the truthiness test of the code, so is a non-empty string) and both lookups
  answer, the set of the entity-id index is the one every later step works on: the
  outcome is the decision taken on that set alone, whatever the tenant and product
  lookup returned and whatever the connection store holds. Both lookups are made, the
  tenant and product one first.
\<close>

theorem resolveConnection_entityId_supersedes:
  assumes "present (tenant p) = Some t" and "present (product p) = Some pr"
    and "present (entityId p) = Some eid"
    and "getByIndex env TenantProduct (keyFromParts env t pr) = Inr tpSet"
    and "getByIndex env EntityID eid = Inr eidSet"
  shows "lookupConnections env p w =
           (Inr (Some eidSet),
            log_call (GetByIndex EntityID eid)
              (log_call (GetByIndex TenantProduct (keyFromParts env t pr)) w))
         \<and> fst (resolveConnection env p w)
             = fst (selectConnection (env\<lparr>getByIndex := other_store\<rparr>) p (Some eidSet) w0)"
proof -
  have l: "lookupConnections env p w =
           (Inr (Some eidSet),
            log_call (GetByIndex EntityID eid)
              (log_call (GetByIndex TenantProduct (keyFromParts env t pr)) w))"
    using assms by (simp add: lookupConnections_def)
  have "fst (selectConnection env p (Some eidSet) w1)
          = fst (selectConnection (env\<lparr>getByIndex := other_store\<rparr>) p (Some eidSet) w0)" for w1
    by (simp add: selectConnection_def Let_def
        split: list.splits option.splits sum.splits bool.splits)
  with l show ?thesis
    by (simp add: resolveConnection_def)
qed

theorem resolveConnection_entityId_supersedes_witness:
  "present (tenant (example_params\<lparr>entityId := Some ''idp-1''\<rparr>)) = Some ''acme''
   \<and> present (product (example_params\<lparr>entityId := Some ''idp-1''\<rparr>)) = Some ''crm''
   \<and> present (entityId (example_params\<lparr>entityId := Some ''idp-1''\<rparr>)) = Some ''idp-1''
   \<and> getByIndex example_env TenantProduct (keyFromParts example_env ''acme'' ''crm'')
       = Inr [SAMLSSORecord conn_a, SAMLSSORecord conn_b]
   \<and> getByIndex example_env EntityID ''idp-1'' = Inr [SAMLSSORecord conn_a]
   \<and> fst (resolveConnection example_env (example_params\<lparr>entityId := Some ''idp-1''\<rparr>) empty_world)
       = Inr (Connection (SAMLSSORecord conn_a))"
proof -
  let ?p = "example_params\<lparr>entityId := Some ''idp-1''\<rparr>"
  have h1: "present (tenant ?p) = Some ''acme''"
    by (simp add: present_def example_params_def)
  have h2: "present (product ?p) = Some ''crm''"
    by (simp add: present_def example_params_def)
  have h3: "present (entityId ?p) = Some ''idp-1''"
    by (simp add: present_def)
  have h4: "getByIndex example_env TenantProduct (keyFromParts example_env ''acme'' ''crm'')
      = Inr [SAMLSSORecord conn_a, SAMLSSORecord conn_b]"
    by (simp add: example_env_def example_store_def)
  have h5: "getByIndex example_env EntityID ''idp-1'' = Inr [SAMLSSORecord conn_a]"
    by (simp add: example_env_def example_store_def)
  have "fst (selectConnection (example_env\<lparr>getByIndex := example_store\<rparr>) ?p
               (Some [SAMLSSORecord conn_a]) empty_world)
          = Inr (Connection (SAMLSSORecord conn_a))"
    by (simp add: selectConnection_def present_def example_params_def)
  with resolveConnection_entityId_supersedes [OF h1 h2 h3 h4 h5, of empty_world example_store empty_world]
  show ?thesis
    using h1 h2 h3 h4 h5 by simp
qed

text \<open>
  Claim C3. With a non-empty set of connections and an \<open>idp_hint\<close> that is present
  (it passes the truthiness test of the code, so is a non-empty string), the result is
  the connection, the first in the set, whose \<open>clientID\<close> equals the hint exactly; when
  no connection of the set has that \<open>clientID\<close> the call fails with the error of status
  404 and message \<open>No SSO connection found.\<close>, although the set is not empty.
\<close>

theorem resolveConnection_idp_hint:
  assumes "fst (lookupConnections env p w) = Inr (Some connections)"
    and "connections \<noteq> []"
    and "present (idp_hint p) = Some hint"
  shows "fst (resolveConnection env p w) =
           (case find (\<lambda>c. connection_clientID c = hint) connections of
              Some c \<Rightarrow> Inr (Connection c)
            | None \<Rightarrow> Inl (JacksonError ''No SSO connection found.'' 404))
         \<and> (if \<exists>c \<in> set connections. connection_clientID c = hint
            then \<exists>c. c \<in> set connections \<and> connection_clientID c = hint
                     \<and> fst (resolveConnection env p w) = Inr (Connection c)
            else fst (resolveConnection env p w)
                   = Inl (JacksonError ''No SSO connection found.'' 404))"
proof -
  obtain w1 where l: "lookupConnections env p w = (Inr (Some connections), w1)"
    using assms(1) by (cases "lookupConnections env p w") auto
  obtain c0 rest where cs: "connections = c0 # rest"
    using assms(2) by (cases connections) auto
  have r: "fst (resolveConnection env p w) =
           (case find (\<lambda>c. connection_clientID c = hint) connections of
              Some c \<Rightarrow> Inr (Connection c)
            | None \<Rightarrow> Inl (JacksonError ''No SSO connection found.'' 404))"
    using l assms(3)
    by (simp add: resolveConnection_def selectConnection_def cs noSSOConnectionErrMessage_def
        split: option.splits)
  show ?thesis
  proof (cases "find (\<lambda>c. connection_clientID c = hint) connections")
    case None
    then have "\<not> (\<exists>c \<in> set connections. connection_clientID c = hint)"
      by (simp add: find_None_iff)
    with r None show ?thesis by simp
  next
    case (Some c)
    then have "c \<in> set connections \<and> connection_clientID c = hint"
      by (auto simp: find_Some_iff)
    with r Some show ?thesis by auto
  qed
qed

theorem resolveConnection_idp_hint_witness:
  "fst (lookupConnections example_env (example_params\<lparr>idp_hint := Some ''client-b''\<rparr>) empty_world)
     = Inr (Some [SAMLSSORecord conn_a, SAMLSSORecord conn_b])
   \<and> [SAMLSSORecord conn_a, SAMLSSORecord conn_b] \<noteq> []
   \<and> present (idp_hint (example_params\<lparr>idp_hint := Some ''client-b''\<rparr>)) = Some ''client-b''
   \<and> fst (resolveConnection example_env (example_params\<lparr>idp_hint := Some ''client-b''\<rparr>) empty_world)
       = Inr (Connection (SAMLSSORecord conn_b))
   \<and> fst (lookupConnections example_env (example_params\<lparr>idp_hint := Some ''client-x''\<rparr>) empty_world)
     = Inr (Some [SAMLSSORecord conn_a, SAMLSSORecord conn_b])
   \<and> present (idp_hint (example_params\<lparr>idp_hint := Some ''client-x''\<rparr>)) = Some ''client-x''
   \<and> fst (resolveConnection example_env (example_params\<lparr>idp_hint := Some ''client-x''\<rparr>) empty_world)
       = Inl (JacksonError ''No SSO connection found.'' 404)"
proof -
  let ?cs = "[SAMLSSORecord conn_a, SAMLSSORecord conn_b]"
  have l: "fst (lookupConnections example_env (example_params\<lparr>idp_hint := h\<rparr>) empty_world)
     = Inr (Some ?cs)" for h
    by (simp add: lookupConnections_def present_def example_env_def example_store_def
        example_params_def)
  have n: "?cs \<noteq> []" by simp
  have hb: "present (idp_hint (example_params\<lparr>idp_hint := Some ''client-b''\<rparr>)) = Some ''client-b''"
    by (simp add: present_def)
  have hx: "present (idp_hint (example_params\<lparr>idp_hint := Some ''client-x''\<rparr>)) = Some ''client-x''"
    by (simp add: present_def)
  have fb: "find (\<lambda>c. connection_clientID c = ''client-b'') ?cs = Some (SAMLSSORecord conn_b)"
    by (simp add: conn_a_def conn_b_def)
  have fx: "find (\<lambda>c. connection_clientID c = ''client-x'') ?cs = None"
    by (simp add: conn_a_def conn_b_def)
  show ?thesis
    using resolveConnection_idp_hint [OF l n hb] resolveConnection_idp_hint [OF l n hx]
      l hb hx fb fx by simp
qed

text \<open>
  Claim C6 says that, with more than one connection left, no hint, flow \<open>oauth\<close> or
  \<open>saml\<close> and tenant and product present, the redirect URL carries \<open>tenant\<close>,
  \<open>product\<close>, \<open>authFlow=sp-initiated\<close> and \<open>samlFedAppId\<close> besides the original
  parameters. The original parameters are spread last into the object of lines 107 to
  113, so an original parameter named \<open>authFlow\<close> replaces \<open>sp-initiated\<close>.
\<close>

theorem resolveConnection_sp_initiated_echo_counterexample:
  "fst (resolveConnection example_env
          (example_params\<lparr>originalParams := [(''authFlow'', ''custom'')]\<rparr>) empty_world)
     = Inr (RedirectUrl
         ''https://sso.example.com/idp/select?tenant=acme&product=crm&authFlow=custom&samlFedAppId='')
   \<and> (''authFlow'', ''sp-initiated'')
       \<notin> set (own_entries (spInitiatedParams ''acme'' ''crm''
                 (example_params\<lparr>originalParams := [(''authFlow'', ''custom'')]\<rparr>)))"
  by (simp add: resolveConnection_def lookupConnections_def selectConnection_def
      spInitiatedParams_def spread_def own_entries_def is_array_index_def is_digit_def
      index_value_def present_def template_def log_call_def example_defs)

text \<open>
  Claim C6, amended. With more than one connection left, no \<open>idp_hint\<close> that passes
  the truthiness test, flow \<open>oauth\<close> or \<open>saml\<close>, tenant and product present and a
  discovery URL that \<^verbatim>\<open>new URL\<close> accepts, the result is the redirect URL made of the
  discovery URL, a question mark and the serialised query. The query holds every
  original parameter with its value, and \<open>tenant\<close>, \<open>product\<close>,
  \<open>authFlow=sp-initiated\<close> and \<open>samlFedAppId\<close> (empty when not given) for each of
  these four names that is not the name of an original parameter; no name occurs twice.
\<close>

theorem resolveConnection_sp_initiated:
  assumes lk: "fst (lookupConnections env p w) = Inr (Some connections)"
    and many: "length connections > 1"
    and nohint: "present (idp_hint p) = None"
    and flow: "authFlow p = OAuth \<or> authFlow p = Saml"
    and t: "present (tenant p) = Some t"
    and pr: "present (product p) = Some pr"
    and url: "new_URL env (externalUrl (opts env) @ template (idpDiscoveryPath (opts env))) = Inr url"
    and wf: "distinct (map fst (originalParams p))"
  shows "fst (resolveConnection env p w)
           = Inr (RedirectUrl (url @ ''?''
                   @ URLSearchParams env (own_entries (spInitiatedParams t pr p))))
         \<and> map_of (own_entries (spInitiatedParams t pr p))
             = [''tenant'' \<mapsto> t, ''product'' \<mapsto> pr, ''authFlow'' \<mapsto> ''sp-initiated'',
                ''samlFedAppId'' \<mapsto> (case samlFedAppId p of None \<Rightarrow> [] | Some f \<Rightarrow> f)]
               ++ map_of (originalParams p)
         \<and> distinct (map fst (own_entries (spInitiatedParams t pr p)))
         \<and> set (originalParams p) \<subseteq> set (own_entries (spInitiatedParams t pr p))"
proof -
  let ?q = "spInitiatedParams t pr p"
  obtain w1 where l: "lookupConnections env p w = (Inr (Some connections), w1)"
    using lk by (cases "lookupConnections env p w") auto
  obtain c0 c1 rest where cs: "connections = c0 # c1 # rest"
    using many by (cases connections; cases "tl connections") auto
  have res: "fst (resolveConnection env p w)
           = Inr (RedirectUrl (url @ ''?'' @ URLSearchParams env (own_entries ?q)))"
    using l nohint flow t pr url
    by (auto simp: resolveConnection_def selectConnection_def cs)
  have d: "distinct (map fst ?q)"
    by (simp add: spInitiatedParams_def distinct_spread)
  have m: "map_of ?q
             = [''tenant'' \<mapsto> t, ''product'' \<mapsto> pr, ''authFlow'' \<mapsto> ''sp-initiated'',
                ''samlFedAppId'' \<mapsto> (case samlFedAppId p of None \<Rightarrow> [] | Some f \<Rightarrow> f)]
               ++ map_of (originalParams p)"
    using wf by (simp add: spInitiatedParams_def map_of_spread fun_eq_iff map_add_def
        split: option.splits)
  have sub: "set (originalParams p) \<subseteq> set ?q"
  proof
    fix kv assume "kv \<in> set (originalParams p)"
    then have "map_of (originalParams p) (fst kv) = Some (snd kv)"
      using wf by simp
    then have "map_of ?q (fst kv) = Some (snd kv)"
      by (simp add: m map_add_def)
    then show "kv \<in> set ?q"
      using map_of_SomeD by fastforce
  qed
  show ?thesis
    using res d m sub
    by (simp add: map_of_own_entries distinct_own_entries set_own_entries)
qed

theorem resolveConnection_sp_initiated_witness:
  "fst (lookupConnections example_env example_params empty_world)
     = Inr (Some [SAMLSSORecord conn_a, SAMLSSORecord conn_b])
   \<and> length [SAMLSSORecord conn_a, SAMLSSORecord conn_b] > 1
   \<and> present (idp_hint example_params) = None
   \<and> (authFlow example_params = OAuth \<or> authFlow example_params = Saml)
   \<and> present (tenant example_params) = Some ''acme''
   \<and> present (product example_params) = Some ''crm''
   \<and> new_URL example_env
         (externalUrl (opts example_env) @ template (idpDiscoveryPath (opts example_env)))
       = Inr ''https://sso.example.com/idp/select''
   \<and> distinct (map fst (originalParams example_params))
   \<and> fst (resolveConnection example_env example_params empty_world)
       = Inr (RedirectUrl
           ''https://sso.example.com/idp/select?tenant=acme&product=crm&authFlow=sp-initiated&samlFedAppId=&state=s1'')"
proof -
  have h1: "fst (lookupConnections example_env example_params empty_world)
     = Inr (Some [SAMLSSORecord conn_a, SAMLSSORecord conn_b])"
    by (simp add: lookupConnections_def present_def example_env_def example_store_def
        example_params_def)
  have h2: "length [SAMLSSORecord conn_a, SAMLSSORecord conn_b] > 1" by simp
  have h3: "present (idp_hint example_params) = None"
    by (simp add: present_def example_params_def)
  have h4: "authFlow example_params = OAuth \<or> authFlow example_params = Saml"
    by (simp add: example_params_def)
  have h5: "present (tenant example_params) = Some ''acme''"
    by (simp add: present_def example_params_def)
  have h6: "present (product example_params) = Some ''crm''"
    by (simp add: present_def example_params_def)
  have h7: "new_URL example_env
         (externalUrl (opts example_env) @ template (idpDiscoveryPath (opts example_env)))
       = Inr ''https://sso.example.com/idp/select''"
    by (simp add: example_env_def template_def)
  have h8: "distinct (map fst (originalParams example_params))"
    by (simp add: example_params_def)
  have q: "URLSearchParams example_env (own_entries (spInitiatedParams ''acme'' ''crm'' example_params))
      = ''tenant=acme&product=crm&authFlow=sp-initiated&samlFedAppId=&state=s1''"
    by (simp add: spInitiatedParams_def spread_def own_entries_def is_array_index_def
        is_digit_def index_value_def example_env_def example_params_def)
  show ?thesis
    using resolveConnection_sp_initiated [OF h1 h2 h3 h4 h5 h6 h7 h8] h1 h3 h4 h5 h6 h7 h8 q
    by simp
qed

section \<open>Properties of createSession\<close>

text \<open>The call returns a token whenever the store accepts the write.\<close>

lemma createSession_returns:
  assumes "\<And>s. session_put env (randomBytes_hex env) s = None"
  shows "fst (createSession env requestId req verifier nonce_arg w)
           = Inr (relayStatePrefix env @ randomBytes_hex env)"
  using assms by (simp add: createSession_def Let_def)

text \<open>
  Claim C5. Whenever \<open>createSession\<close> returns a token, the token is the relay-state
  prefix followed by the generated session identifier, and the session store holds under
  that identifier the record with the given \<open>requestId\<close>, the given context as
  \<open>requested\<close>, unchanged, and \<open>oidcCodeVerifier\<close> and \<open>oidcNonce\<close> exactly when they
  were supplied (when they pass the truthiness test of the code), with the supplied
  value.
\<close>

theorem createSession_roundtrip:
  assumes "fst (createSession env requestId req verifier nonce_arg w) = Inr token"
  shows "token = relayStatePrefix env @ randomBytes_hex env
         \<and> sessions (snd (createSession env requestId req verifier nonce_arg w))
               (randomBytes_hex env)
             = Some \<lparr>id' = requestId, requested = req, samlFederated = True,
                     oidcCodeVerifier = present verifier, oidcNonce = present nonce_arg\<rparr>
         \<and> (present verifier = None \<or> present verifier = verifier)
         \<and> (present nonce_arg = None \<or> present nonce_arg = nonce_arg)"
  using assms
  by (auto simp: createSession_def Let_def log_call_def present_def
      split: option.splits if_splits)

theorem createSession_roundtrip_witness:
  "fst (createSession example_env ''req-1'' (JObject [(''acsUrl'', JString ''https://sp/acs'')])
          (Some ''verifier'') None empty_world) = Inr ''relay_00ff''
   \<and> sessions (snd (createSession example_env ''req-1''
                      (JObject [(''acsUrl'', JString ''https://sp/acs'')])
                      (Some ''verifier'') None empty_world)) ''00ff''
       = Some \<lparr>id' = ''req-1'', requested = JObject [(''acsUrl'', JString ''https://sp/acs'')],
               samlFederated = True, oidcCodeVerifier = Some ''verifier'', oidcNonce = None\<rparr>"
proof -
  have h: "fst (createSession example_env ''req-1'' (JObject [(''acsUrl'', JString ''https://sp/acs'')])
          (Some ''verifier'') None empty_world) = Inr ''relay_00ff''"
    by (simp add: createSession_def Let_def present_def example_env_def)
  have p: "present (Some ''verifier'') = Some ''verifier''" "present None = None"
    by (simp_all add: present_def)
  have sid: "randomBytes_hex example_env = ''00ff''"
    by (simp add: example_env_def)
  show ?thesis
    using createSession_roundtrip [OF h] h p sid by simp
qed

section \<open>Properties of createOIDCRequest\<close>

text \<open>
  Claim C9. When the OIDC callback path of the broker is not configured (\<open>oidcPath\<close>
  is undefined or empty), \<open>createOIDCRequest\<close> fails with the error of status 400 and
  message \<open>OpenID response handler path (oidcPath) is not set\<close>, and leaves the world
  as it was: no collaborator has been called and no session has been stored.
\<close>

theorem createOIDCRequest_requires_oidcPath:
  assumes "\<not> truthy (oidcPath (opts env))"
  shows "createOIDCRequest env connection requestParams w
           = (Inl (JacksonError ''OpenID response handler path (oidcPath) is not set'' 400), w)"
  using assms by (simp add: createOIDCRequest_def truthy_def)

theorem createOIDCRequest_requires_oidcPath_witness:
  "\<not> truthy (oidcPath (opts (example_env\<lparr>opts := (opts example_env)\<lparr>oidcPath := None\<rparr>\<rparr>)))
   \<and> createOIDCRequest (example_env\<lparr>opts := (opts example_env)\<lparr>oidcPath := None\<rparr>\<rparr>)
        conn_oidc [] empty_world
       = (Inl (JacksonError ''OpenID response handler path (oidcPath) is not set'' 400), empty_world)
   \<and> \<not> truthy (oidcPath (opts (example_env\<lparr>opts := (opts example_env)\<lparr>oidcPath := Some []\<rparr>\<rparr>)))
   \<and> fst (createOIDCRequest (example_env\<lparr>opts := (opts example_env)\<lparr>oidcPath := Some []\<rparr>\<rparr>)
        conn_oidc [] empty_world)
       = Inl (JacksonError ''OpenID response handler path (oidcPath) is not set'' 400)"
proof -
  have h: "\<not> truthy (oidcPath (opts (example_env\<lparr>opts := (opts example_env)\<lparr>oidcPath := None\<rparr>\<rparr>)))"
    by (simp add: truthy_def present_def)
  have h': "\<not> truthy (oidcPath (opts (example_env\<lparr>opts := (opts example_env)\<lparr>oidcPath := Some []\<rparr>\<rparr>)))"
    by (simp add: truthy_def present_def)
  show ?thesis
    using createOIDCRequest_requires_oidcPath [OF h, of conn_oidc "[]" empty_world]
      createOIDCRequest_requires_oidcPath [OF h', of conn_oidc "[]" empty_world] h h'
    by simp
qed

section \<open>Properties of createSAMLRequest\<close>

lemma map_of_samlRequested:
  "distinct (map fst requestParams) \<Longrightarrow>
     map_of (samlRequested connection requestParams)
       = (map_of requestParams)(''client_id'' \<mapsto> JString (clientID connection))"
  by (simp add: samlRequested_def map_of_obj_set map_of_spread)

text \<open>
  Claim C10. Whenever \<open>createSAMLRequest\<close> returns, the session stored under the
  generated identifier has as \<open>requested\<close> the object that maps \<open>client_id\<close> to the
  \<open>clientID\<close> of the connection, also when the request context of the caller has a
  \<open>client_id\<close> of its own, and maps every other key as the request context does.
\<close>

theorem createSAMLRequest_session_client_id:
  assumes "fst (createSAMLRequest env connection requestParams w) = Inr out"
    and "distinct (map fst requestParams)"
  shows "\<exists>s ob. sessions (snd (createSAMLRequest env connection requestParams w))
                   (randomBytes_hex env) = Some s
           \<and> requested s = JObject ob
           \<and> map_of ob = (map_of requestParams)(''client_id'' \<mapsto> JString (clientID connection))
           \<and> map_of ob ''client_id'' = Some (JString (clientID connection))
           \<and> (\<forall>k. k \<noteq> ''client_id'' \<longrightarrow> map_of ob k = map_of requestParams k)"
  using assms
  by (auto simp: createSAMLRequest_def createSession_def Let_def log_call_def present_def
      map_of_samlRequested split: sum.splits option.splits if_splits prod.splits)

theorem createSAMLRequest_session_client_id_witness:
  "fst (createSAMLRequest example_env conn_a
          [(''client_id'', JString ''other''), (''acsUrl'', JString ''https://sp/acs'')] empty_world)
     = Inr \<lparr>redirect_url = Some
               ''https://idp-a.example.com/sso?RelayState=relay_00ff&SAMLRequest=b64:z:<AuthnRequest/>'',
             authorize_form = None\<rparr>
   \<and> distinct (map fst [(''client_id'', JString ''other''), (''acsUrl'', JString ''https://sp/acs'')])
   \<and> (\<exists>s ob. sessions (snd (createSAMLRequest example_env conn_a
                     [(''client_id'', JString ''other''), (''acsUrl'', JString ''https://sp/acs'')]
                     empty_world)) (randomBytes_hex example_env) = Some s
           \<and> requested s = JObject ob
           \<and> map_of ob ''client_id'' = Some (JString ''client-a'')
           \<and> map_of ob ''acsUrl'' = Some (JString ''https://sp/acs''))"
proof -
  let ?rp = "[(''client_id'', JString ''other''), (''acsUrl'', JString ''https://sp/acs'')]"
  have h1: "fst (createSAMLRequest example_env conn_a ?rp empty_world)
     = Inr \<lparr>redirect_url = Some
               ''https://idp-a.example.com/sso?RelayState=relay_00ff&SAMLRequest=b64:z:<AuthnRequest/>'',
             authorize_form = None\<rparr>"
    by (simp add: createSAMLRequest_def createSession_def select_binding_def Let_def
        present_def example_env_def example_redirect_def conn_a_def)
  have h2: "distinct (map fst ?rp)" by simp
  have c: "clientID conn_a = ''client-a''"
    by (simp add: conn_a_def)
  from createSAMLRequest_session_client_id [OF h1 h2]
  obtain s ob where
    "sessions (snd (createSAMLRequest example_env conn_a ?rp empty_world))
       (randomBytes_hex example_env) = Some s"
    and "requested s = JObject ob"
    and m: "map_of ob = (map_of ?rp)(''client_id'' \<mapsto> JString (clientID conn_a))"
    by blast
  moreover from m c have "map_of ob ''client_id'' = Some (JString ''client-a'')"
    by simp
  moreover from m have "map_of ob ''acsUrl'' = Some (JString ''https://sp/acs'')"
    by simp
  ultimately show ?thesis
    using h1 h2 by blast
qed

text \<open>
  Claim C4 says that the POST binding is selected if and only if the metadata of the
  connection exposes a POST endpoint. Lines 155 to 160 test for \<open>redirectUrl\<close>
  first: a connection that exposes both endpoints gets the redirect binding.
\<close>

theorem createSAMLRequest_post_iff_counterexample:
  "postUrl (idpMetadata_sso conn_both) = Some ''https://idp-c.example.com/post''
   \<and> fst (createSAMLRequest example_env conn_both [] empty_world)
       = Inr \<lparr>redirect_url = Some
                 ''https://idp-c.example.com/sso?RelayState=relay_00ff&SAMLRequest=b64:z:<AuthnRequest/>'',
               authorize_form = None\<rparr>"
  by (simp add: createSAMLRequest_def createSession_def select_binding_def Let_def
      present_def example_env_def example_redirect_def conn_both_def)

text \<open>
  Claim C4, amended. For a connection whose metadata exposes at least one endpoint,
  once the certificate, the request of the toolkit and the session are there,
  \<open>createSAMLRequest\<close> selects the POST binding if and only if the metadata
  exposes a \<open>postUrl\<close> and no \<open>redirectUrl\<close>: the result then is the form built for the
  \<open>postUrl\<close> with the hidden fields \<open>RelayState\<close> and \<open>SAMLRequest\<close>, the latter the
  base64 of the uncompressed request, and no redirect URL. In every other case the
  binding is the redirect binding: the result is the URL that the redirect helper builds
  for the \<open>redirectUrl\<close> from \<open>RelayState\<close> and \<open>SAMLRequest\<close>, the latter the base64
  of the raw-deflated request, and no form.
\<close>

theorem createSAMLRequest_binding:
  assumes cert: "getDefaultCertificate env = Inr cert"
    and req: "saml_request env
                (samlRequestArgs env connection cert
                   (fst (select_binding (idpMetadata_sso connection)))) = Inr samlRequest"
    and put: "\<And>s. session_put env (randomBytes_hex env) s = None"
    and endpoint: "redirectUrl (idpMetadata_sso connection) \<noteq> None
                   \<or> postUrl (idpMetadata_sso connection) \<noteq> None"
  shows "fst (createSAMLRequest env connection requestParams w) =
           (if redirectUrl (idpMetadata_sso connection) = None
               \<and> postUrl (idpMetadata_sso connection) \<noteq> None
            then
              (case createPostForm env (js_of (postUrl (idpMetadata_sso connection)))
                      [(''RelayState'', JString (relayStatePrefix env @ randomBytes_hex env)),
                       (''SAMLRequest'', JString (base64 env (request samlRequest)))] of
                 Inl e \<Rightarrow> Inl e
               | Inr form \<Rightarrow> Inr \<lparr>redirect_url = None, authorize_form = Some form\<rparr>)
            else
              (case deflateRaw env (request samlRequest) of
                 Inl e \<Rightarrow> Inl e
               | Inr deflated \<Rightarrow>
                   (case redirect_success env (js_of (redirectUrl (idpMetadata_sso connection)))
                           [(''RelayState'', relayStatePrefix env @ randomBytes_hex env),
                            (''SAMLRequest'', base64 env deflated)] of
                      Inl e \<Rightarrow> Inl e
                    | Inr url \<Rightarrow> Inr \<lparr>redirect_url = Some url, authorize_form = None\<rparr>)))"
proof (cases "redirectUrl (idpMetadata_sso connection)")
  case None
  note r = None
  show ?thesis
  proof (cases "postUrl (idpMetadata_sso connection)")
    case None
    with r endpoint show ?thesis by simp
  next
    case (Some u)
    with r cert req put show ?thesis
      by (simp add: createSAMLRequest_def createSession_def select_binding_def Let_def
          present_def js_of_def split: sum.splits)
  qed
next
  case (Some r)
  with cert req put show ?thesis
    by (simp add: createSAMLRequest_def createSession_def select_binding_def Let_def
        present_def js_of_def split: sum.splits)
qed

theorem createSAMLRequest_binding_witness:
  "getDefaultCertificate example_env = Inr \<lparr>privateKey = ''PRIVATE'', publicKey = ''PUBLIC''\<rparr>
   \<and> saml_request example_env
         (samlRequestArgs example_env conn_b \<lparr>privateKey = ''PRIVATE'', publicKey = ''PUBLIC''\<rparr>
            (fst (select_binding (idpMetadata_sso conn_b))))
       = Inr \<lparr>request_id = ''_r1'', request = ''<AuthnRequest/>''\<rparr>
   \<and> saml_request example_env
         (samlRequestArgs example_env conn_a \<lparr>privateKey = ''PRIVATE'', publicKey = ''PUBLIC''\<rparr>
            (fst (select_binding (idpMetadata_sso conn_a))))
       = Inr \<lparr>request_id = ''_r1'', request = ''<AuthnRequest/>''\<rparr>
   \<and> (\<forall>s. session_put example_env (randomBytes_hex example_env) s = None)
   \<and> redirectUrl (idpMetadata_sso conn_b) = None
   \<and> postUrl (idpMetadata_sso conn_b) = Some ''https://idp-b.example.com/post''
   \<and> redirectUrl (idpMetadata_sso conn_a) = Some ''https://idp-a.example.com/sso''
   \<and> postUrl (idpMetadata_sso conn_a) = None
   \<and> fst (createSAMLRequest example_env conn_b [] empty_world)
       = Inr \<lparr>redirect_url = None, authorize_form = Some ''<form/>''\<rparr>
   \<and> fst (createSAMLRequest example_env conn_a [] empty_world)
       = Inr \<lparr>redirect_url = Some
                 ''https://idp-a.example.com/sso?RelayState=relay_00ff&SAMLRequest=b64:z:<AuthnRequest/>'',
               authorize_form = None\<rparr>"
proof -
  let ?cert = "\<lparr>privateKey = ''PRIVATE'', publicKey = ''PUBLIC''\<rparr>"
  let ?sr = "\<lparr>request_id = ''_r1'', request = ''<AuthnRequest/>''\<rparr>"
  have h1: "getDefaultCertificate example_env = Inr ?cert"
    by (simp add: example_env_def)
  have h2: "saml_request example_env a = Inr ?sr" for a
    by (simp add: example_env_def)
  have h3: "session_put example_env (randomBytes_hex example_env) s = None" for s
    by (simp add: example_env_def)
  have eb: "redirectUrl (idpMetadata_sso conn_b) \<noteq> None \<or> postUrl (idpMetadata_sso conn_b) \<noteq> None"
    by (simp add: conn_b_def)
  have ea: "redirectUrl (idpMetadata_sso conn_a) \<noteq> None \<or> postUrl (idpMetadata_sso conn_a) \<noteq> None"
    by (simp add: conn_a_def)
  have b: "fst (createSAMLRequest example_env conn_b [] empty_world)
       = Inr \<lparr>redirect_url = None, authorize_form = Some ''<form/>''\<rparr>"
    using createSAMLRequest_binding [OF h1 h2 h3 eb, of "[]" empty_world]
    by (simp add: example_env_def conn_b_def js_of_def)
  have a: "fst (createSAMLRequest example_env conn_a [] empty_world)
       = Inr \<lparr>redirect_url = Some
                 ''https://idp-a.example.com/sso?RelayState=relay_00ff&SAMLRequest=b64:z:<AuthnRequest/>'',
               authorize_form = None\<rparr>"
    using createSAMLRequest_binding [OF h1 h2 h3 ea, of "[]" empty_world]
    by (simp add: example_env_def example_redirect_def conn_a_def js_of_def)
  show ?thesis
    using h1 h2 h3 a b by (simp add: conn_a_def conn_b_def)
qed

text \<open>
  Claim C7 asks that a connection exposing neither \<open>redirectUrl\<close> nor \<open>postUrl\<close>
  makes \<open>createSAMLRequest\<close> fail with a construction error, before a request is built
  against an undefined endpoint. The handler has no such check: for such a connection it
  asks the toolkit for a request with an undefined endpoint, stores the session, and
  hands the undefined endpoint to the redirect helper; the outcome is whatever the
  helper answers, an error of the helper or, with a helper that does not look at the
  endpoint, a redirect URL.
\<close>

theorem createSAMLRequest_no_endpoint_unvalidated:
  "select_binding (idpMetadata_sso conn_none) = (JUndefined, False)
   \<and> fst (createSAMLRequest example_env conn_none [] empty_world) = Inl (Thrown ''Invalid URL'')
   \<and> calls (snd (createSAMLRequest example_env conn_none [] empty_world))
       = [GetDefaultCertificate, SamlRequest, SessionPut ''00ff'', RedirectSuccess]
   \<and> sessions (snd (createSAMLRequest example_env conn_none [] empty_world)) ''00ff''
       = Some \<lparr>id' = ''_r1'', requested = JObject [(''client_id'', JString ''client-d'')],
               samlFederated = True, oidcCodeVerifier = None, oidcNonce = None\<rparr>
   \<and> fst (createSAMLRequest
             (example_env\<lparr>redirect_success := (\<lambda>url ps. Inr (''?'' @ plain_query ps))\<rparr>)
             conn_none [] empty_world)
       = Inr \<lparr>redirect_url = Some ''?RelayState=relay_00ff&SAMLRequest=b64:z:<AuthnRequest/>'',
               authorize_form = None\<rparr>"
  by (simp add: createSAMLRequest_def createSession_def select_binding_def Let_def
      present_def log_call_def samlRequested_def spread_def own_entries_def
      example_env_def example_redirect_def conn_none_def empty_world_def)

section \<open>Properties of createSAMLResponse\<close>

lemma samlResponseBody_lib_failure:
  assumes "\<And>a. lib_createSAMLResponse env a = Inl e"
  shows "\<exists>e'. fst (samlResponseBody env cert profile sess w) = Inl e'"
  using assms by (simp add: samlResponseBody_def Let_def split: sum.splits)

lemma samlResponseBody_form_failure:
  assumes "\<And>u fs. createPostForm env u fs = Inl e"
  shows "\<exists>e'. fst (samlResponseBody env cert profile sess w) = Inl e'"
  using assms by (simp add: samlResponseBody_def Let_def split: sum.splits)

lemma samlResponseBody_no_session:
  assumes "sess = JUndefined \<or> sess = JNull \<or> sess = JObject []"
  shows "\<exists>e'. fst (samlResponseBody env cert profile sess w) = Inl e'"
  using assms by (auto simp: samlResponseBody_def)

text \<open>
  Claim C8 says that every failure of \<open>createSAMLResponse\<close>, obtaining the signing
  key pair included, surfaces as the error of status 403. The key pair is obtained
  before the \<^verbatim>\<open>try\<close> is entered: a failure of the certificate provider surfaces as
  it is.
\<close>

theorem createSAMLResponse_certificate_counterexample:
  "fst (createSAMLResponse
          (example_env\<lparr>getDefaultCertificate := Inl (Thrown ''certificate unavailable'')\<rparr>)
          JNull (JObject [(''requested'', JObject [(''acsUrl'', JString ''https://sp/acs'')])])
          empty_world)
     = Inl (Thrown ''certificate unavailable'')"
  by (simp add: createSAMLResponse_def example_env_def)

text \<open>
  Claim C8, amended. A failure to obtain the signing key pair surfaces unchanged. Once
  the key pair is there, any failure while the response is built and signed, the session
  is read or the form is built results in the error of status 403 and message
  \<open>Unable to validate SAML Response.\<close>, and no other error ever surfaces.
\<close>

theorem createSAMLResponse_failures:
  "(case getDefaultCertificate env of
      Inl e \<Rightarrow> fst (createSAMLResponse env profile sess w) = Inl e
    | Inr cert \<Rightarrow>
        (\<forall>err. fst (createSAMLResponse env profile sess w) = Inl err \<longrightarrow>
               err = JacksonError ''Unable to validate SAML Response.'' 403)
        \<and> (\<forall>e. fst (samlResponseBody env cert profile sess (log_call GetDefaultCertificate w))
                  = Inl e \<longrightarrow>
               fst (createSAMLResponse env profile sess w)
                 = Inl (JacksonError ''Unable to validate SAML Response.'' 403)))"
  by (auto simp: createSAMLResponse_def Let_def split: sum.splits prod.splits)

theorem createSAMLResponse_failures_witness:
  "getDefaultCertificate
      (example_env\<lparr>lib_createSAMLResponse := (\<lambda>a. Inl (Thrown ''signing failed''))\<rparr>)
     = Inr \<lparr>privateKey = ''PRIVATE'', publicKey = ''PUBLIC''\<rparr>
   \<and> fst (samlResponseBody
            (example_env\<lparr>lib_createSAMLResponse := (\<lambda>a. Inl (Thrown ''signing failed''))\<rparr>)
            \<lparr>privateKey = ''PRIVATE'', publicKey = ''PUBLIC''\<rparr> JNull
            (JObject [(''requested'', JObject [(''acsUrl'', JString ''https://sp/acs'')])])
            (log_call GetDefaultCertificate empty_world))
       = Inl (Thrown ''signing failed'')
   \<and> fst (createSAMLResponse
            (example_env\<lparr>lib_createSAMLResponse := (\<lambda>a. Inl (Thrown ''signing failed''))\<rparr>)
            JNull (JObject [(''requested'', JObject [(''acsUrl'', JString ''https://sp/acs'')])])
            empty_world)
       = Inl (JacksonError ''Unable to validate SAML Response.'' 403)"
proof -
  let ?env = "example_env\<lparr>lib_createSAMLResponse := (\<lambda>a. Inl (Thrown ''signing failed''))\<rparr>"
  let ?sess = "JObject [(''requested'', JObject [(''acsUrl'', JString ''https://sp/acs'')])]"
  let ?cert = "\<lparr>privateKey = ''PRIVATE'', publicKey = ''PUBLIC''\<rparr>"
  have h1: "getDefaultCertificate ?env = Inr ?cert"
    by (simp add: example_env_def)
  have h2: "fst (samlResponseBody ?env ?cert JNull ?sess (log_call GetDefaultCertificate empty_world))
       = Inl (Thrown ''signing failed'')"
    by (simp add: samlResponseBody_def Let_def)
  have "case getDefaultCertificate ?env of
      Inl e \<Rightarrow> fst (createSAMLResponse ?env JNull ?sess empty_world) = Inl e
    | Inr cert \<Rightarrow>
        (\<forall>err. fst (createSAMLResponse ?env JNull ?sess empty_world) = Inl err \<longrightarrow>
               err = JacksonError ''Unable to validate SAML Response.'' 403)
        \<and> (\<forall>e. fst (samlResponseBody ?env cert JNull ?sess (log_call GetDefaultCertificate empty_world))
                  = Inl e \<longrightarrow>
               fst (createSAMLResponse ?env JNull ?sess empty_world)
                 = Inl (JacksonError ''Unable to validate SAML Response.'' 403))"
    by (rule createSAMLResponse_failures)
  then have "\<forall>e. fst (samlResponseBody ?env ?cert JNull ?sess (log_call GetDefaultCertificate empty_world))
                  = Inl e \<longrightarrow>
               fst (createSAMLResponse ?env JNull ?sess empty_world)
                 = Inl (JacksonError ''Unable to validate SAML Response.'' 403)"
    unfolding h1 sum.case by (rule conjunct2)
  with h2 have "fst (createSAMLResponse ?env JNull ?sess empty_world)
                 = Inl (JacksonError ''Unable to validate SAML Response.'' 403)"
    by blast
  with h1 h2 show ?thesis
    by (intro conjI)
qed

end
